theory Spec2Isabelle
  imports Main "HOL-Library.AList"
begin

section \<open>Python values, faults and the store\<close>

text \<open>
  The module \<^verbatim>\<open>autogen/oai/anthropic.py\<close> works on plain Python data: the request
  mapping \<^verbatim>\<open>params\<close>, its turns and the tool declarations are dicts with string keys
  holding \<^verbatim>\<open>None\<close>, booleans, integers, strings, lists and dicts.

  A dict keeps its insertion order, so it is an association list: \<open>map_of\<close> reads a key,
  \<open>AList.update\<close> writes one (in place when the key exists, at the end otherwise) and
  \<open>AList.delete\<close> removes one.

  The dicts that belong to the caller or to the client (the request mapping, the turns of
  the conversation, the client's \<^verbatim>\<open>_last_tooluse_status\<close>) are objects that
  \<^verbatim>\<open>create\<close> and \<^verbatim>\<open>message_retrieval\<close> could write in place: they live in a store,
  a function from addresses to dict contents, and \<open>PRef a\<close> is the reference to the dict at
  address \<open>a\<close>. A dict that the code only builds or only reads is the value \<open>PDict\<close>.
  Lists are values: no list that the caller owns is written by this module.
\<close>

datatype pyval =
    PNone
  | PBool bool
  | PInt int
  | PStr string
  | PList "pyval list"
  | PDict "(string \<times> pyval) list"
  | PRef nat

type_synonym dict = "(string \<times> pyval) list"

type_synonym heap = "nat \<Rightarrow> dict"

text \<open>The exceptions that the code can raise; none of them is caught in the module.\<close>

datatype error =
    KeyError pyval
  | IndexError
  | TypeError
  | AttributeError string
  | ValidationError

subsection \<open>Operations on a dict\<close>

text \<open>\<^verbatim>\<open>k in d\<close>, \<^verbatim>\<open>d[k]\<close>, \<^verbatim>\<open>d.get(k, default)\<close> and \<^verbatim>\<open>d.pop(k)\<close>.\<close>

definition has_key :: "string \<Rightarrow> dict \<Rightarrow> bool" where
  "has_key k d = (map_of d k \<noteq> None)"

definition getitem :: "dict \<Rightarrow> string \<Rightarrow> error + pyval" where
  "getitem d k = (case map_of d k of None \<Rightarrow> Inl (KeyError (PStr k)) | Some v \<Rightarrow> Inr v)"

definition dict_get :: "dict \<Rightarrow> string \<Rightarrow> pyval \<Rightarrow> pyval" where
  "dict_get d k dflt = (case map_of d k of None \<Rightarrow> dflt | Some v \<Rightarrow> v)"

definition dict_pop :: "dict \<Rightarrow> string \<Rightarrow> error + (pyval \<times> dict)" where
  "dict_pop d k =
     (case map_of d k of
        None \<Rightarrow> Inl (KeyError (PStr k))
      | Some v \<Rightarrow> Inr (v, AList.delete k d))"

subsection \<open>Operations on a value of any type\<close>

text \<open>The dict that a value is, if it is one: a dict value or a reference into the store.\<close>

definition as_dict :: "heap \<Rightarrow> pyval \<Rightarrow> dict option" where
  "as_dict h v = (case v of PDict d \<Rightarrow> Some d | PRef a \<Rightarrow> Some (h a) | _ \<Rightarrow> None)"

text \<open>\<^verbatim>\<open>v.items()\<close>, \<^verbatim>\<open>v.get(k)\<close> and \<^verbatim>\<open>v.copy()\<close>: only a dict has \<^verbatim>\<open>items\<close> and
  \<^verbatim>\<open>get\<close>; a list has \<^verbatim>\<open>copy\<close> too.\<close>

definition items :: "heap \<Rightarrow> pyval \<Rightarrow> error + dict" where
  "items h v = (case as_dict h v of None \<Rightarrow> Inl (AttributeError ''items'') | Some d \<Rightarrow> Inr d)"

definition get_method :: "heap \<Rightarrow> pyval \<Rightarrow> string \<Rightarrow> error + pyval" where
  "get_method h v k =
     (case as_dict h v of
        None \<Rightarrow> Inl (AttributeError ''get'')
      | Some d \<Rightarrow> Inr (dict_get d k PNone))"

text \<open>\<^verbatim>\<open>v[k]\<close> for a string \<open>k\<close>: a list or a string wants an integer, the other
  types have no subscript.\<close>

definition subscript :: "heap \<Rightarrow> pyval \<Rightarrow> string \<Rightarrow> error + pyval" where
  "subscript h v k = (case as_dict h v of None \<Rightarrow> Inl TypeError | Some d \<Rightarrow> getitem d k)"

text \<open>\<^verbatim>\<open>xs[i]\<close> for an integer \<open>i\<close>, which counts from the end when negative.\<close>

definition list_index :: "'a list \<Rightarrow> int \<Rightarrow> error + 'a" where
  "list_index xs i =
     (if 0 \<le> i \<and> i < int (length xs) then Inr (xs ! nat i)
      else if i < 0 \<and> - int (length xs) \<le> i then Inr (xs ! nat (int (length xs) + i))
      else Inl IndexError)"

definition index :: "heap \<Rightarrow> pyval \<Rightarrow> int \<Rightarrow> error + pyval" where
  "index h v i =
     (case v of
        PList xs \<Rightarrow> list_index xs i
      | PStr s \<Rightarrow> (case list_index s i of Inl e \<Rightarrow> Inl e | Inr c \<Rightarrow> Inr (PStr [c]))
      | PDict d \<Rightarrow> Inl (KeyError (PInt i))
      | PRef a \<Rightarrow> Inl (KeyError (PInt i))
      | _ \<Rightarrow> Inl TypeError)"

text \<open>\<^verbatim>\<open>for x in v\<close>: the elements of a list, the characters of a string, the keys of
  a dict.\<close>

definition iterate :: "heap \<Rightarrow> pyval \<Rightarrow> error + pyval list" where
  "iterate h v =
     (case v of
        PList xs \<Rightarrow> Inr xs
      | PStr s \<Rightarrow> Inr (map (\<lambda>c. PStr [c]) s)
      | PDict d \<Rightarrow> Inr (map (\<lambda>kv. PStr (fst kv)) d)
      | PRef a \<Rightarrow> Inr (map (\<lambda>kv. PStr (fst kv)) (h a))
      | _ \<Rightarrow> Inl TypeError)"

text \<open>\<^verbatim>\<open>k in v\<close> for a string \<open>k\<close>: a key of a dict, an element of a list, a substring
  of a string.\<close>

fun is_substring :: "string \<Rightarrow> string \<Rightarrow> bool" where
  "is_substring k [] = (k = [])"
| "is_substring k (c # cs) = (take (length k) (c # cs) = k \<or> is_substring k cs)"

definition contains :: "heap \<Rightarrow> pyval \<Rightarrow> string \<Rightarrow> error + bool" where
  "contains h v k =
     (case v of
        PDict d \<Rightarrow> Inr (has_key k d)
      | PRef a \<Rightarrow> Inr (has_key k (h a))
      | PList xs \<Rightarrow> Inr (PStr k \<in> set xs)
      | PStr s \<Rightarrow> Inr (is_substring k s)
      | _ \<Rightarrow> Inl TypeError)"

text \<open>A comprehension \<^verbatim>\<open>[f(x) for x in xs]\<close> stops at the first element that raises.\<close>

fun traverse :: "('a \<Rightarrow> error + 'b) \<Rightarrow> 'a list \<Rightarrow> error + 'b list" where
  "traverse f [] = Inr []"
| "traverse f (x # xs) =
     (case f x of
        Inl e \<Rightarrow> Inl e
      | Inr y \<Rightarrow> (case traverse f xs of Inl e \<Rightarrow> Inl e | Inr ys \<Rightarrow> Inr (y # ys)))"

section \<open>What the module imports\<close>

text \<open>
  The names below are defined outside the repository and are parameters of the model:
  \<^verbatim>\<open>TOOL_ENABLED\<close> is computed from the version of the \<^verbatim>\<open>anthropic\<close> package,
  \<^verbatim>\<open>Message.model_fields\<close> is the field set of its \<^verbatim>\<open>Message\<close> class,
  \<^verbatim>\<open>json.dumps\<close> is the standard serialiser and \<^verbatim>\<open>ChatCompletionMessage\<close> the
  validating constructor of the \<^verbatim>\<open>openai\<close> package, called with the keyword arguments
  \<^verbatim>\<open>content\<close>, \<^verbatim>\<open>role\<close> and \<^verbatim>\<open>function_call\<close>; \<open>'m\<close> is the type of the message it makes.
\<close>

record 'm library =
  TOOL_ENABLED :: bool
  model_fields :: "string list"
  json_dumps :: "pyval \<Rightarrow> error + string"
  ChatCompletionMessage :: "pyval \<Rightarrow> pyval \<Rightarrow> pyval \<Rightarrow> error + 'm"

section \<open>The client\<close>

text \<open>
  \<^verbatim>\<open>AnthropicClient\<close> keeps the model name and the dict \<^verbatim>\<open>_last_tooluse_status\<close>, which its
  constructor makes empty; the record holds the address of that dict. The configuration
  and the SDK client it also keeps play no part in translation.
\<close>

record AnthropicClient =
  model :: string
  last_tooluse_status :: nat

text \<open>
  A content block of a response is an instance of a class of the SDK: it is read by
  attribute, and its attributes hold plain data. \<^verbatim>\<open>model_dump()\<close> gives the dict of its
  fields. Plain data has none of the attributes the module reads.
\<close>

type_synonym block = "(string \<times> pyval) list"

definition getattr :: "block \<Rightarrow> string \<Rightarrow> error + pyval" where
  "getattr b name = (case map_of b name of None \<Rightarrow> Inl (AttributeError name) | Some v \<Rightarrow> Inr v)"

definition getattr_data :: "pyval \<Rightarrow> string \<Rightarrow> error + pyval" where
  "getattr_data v name = Inl (AttributeError name)"

definition model_dump :: "block \<Rightarrow> pyval" where
  "model_dump b = PDict b"

record Usage =
  input_tokens :: int
  output_tokens :: int

record response =
  content :: "block list"
  usage :: "Usage option"

text \<open>An element of the list that \<^verbatim>\<open>message_retrieval\<close> returns: \<^verbatim>\<open>None\<close> or a text, or a
  message made by \<^verbatim>\<open>ChatCompletionMessage\<close>.\<close>

datatype 'm retrieved = Plain pyval | Message 'm

subsection \<open>\<^verbatim>\<open>pop_invalid_message_keys\<close>\<close>

definition pop_invalid_message_keys ::
  "string list \<Rightarrow> heap \<Rightarrow> pyval \<Rightarrow> error + (dict list \<times> dict)" where
  "pop_invalid_message_keys valid_keys h messages =
     (case iterate h messages of
        Inl e \<Rightarrow> Inl e
      | Inr ms \<Rightarrow>
          (case traverse
                  (\<lambda>message. case items h message of
                                Inl e \<Rightarrow> Inl e
                              | Inr kvs \<Rightarrow> Inr (filter (\<lambda>kv. fst kv \<in> set valid_keys) kvs))
                  ms of
             Inl e \<Rightarrow> Inl e
           | Inr valid_messages \<Rightarrow>
               (case index h messages (- 1) of
                  Inl e \<Rightarrow> Inl e
                | Inr last_message \<Rightarrow>
                    (case items h last_message of
                       Inl e \<Rightarrow> Inl e
                     | Inr kvs \<Rightarrow>
                         Inr (valid_messages,
                              filter (\<lambda>kv. fst kv \<notin> set valid_keys) kvs)))))"

subsection \<open>The Tool-Use State Cache: its two readers\<close>

definition restore_last_tooluse_status :: "heap \<Rightarrow> AnthropicClient \<Rightarrow> error + pyval" where
  "restore_last_tooluse_status h self =
     (let status = h (last_tooluse_status self);
          cached_content =
            (if has_key ''think'' status
             then [PDict [(''type'', PStr ''text''),
                          (''text'', dict_get status ''think'' PNone)]]
             else [])
      in case getitem status ''tool_use'' of
           Inl e \<Rightarrow> Inl e
         | Inr tool_use \<Rightarrow>
             Inr (PDict [(''role'', PStr ''assistant''),
                         (''content'', PList (cached_content @ [tool_use]))]))"

definition return_function_call_result ::
  "heap \<Rightarrow> AnthropicClient \<Rightarrow> pyval \<Rightarrow> error + pyval" where
  "return_function_call_result h self result =
     (case getitem (h (last_tooluse_status self)) ''tool_use'' of
        Inl e \<Rightarrow> Inl e
      | Inr tool_use \<Rightarrow>
          (case subscript h tool_use ''id'' of
             Inl e \<Rightarrow> Inl e
           | Inr tool_use_id \<Rightarrow>
               Inr (PDict [(''role'', PStr ''user''),
                           (''content'',
                            PList [PDict [(''type'', PStr ''tool_result''),
                                          (''tool_use_id'', tool_use_id),
                                          (''content'', result)]])])))"

subsection \<open>The declarations\<close>

text \<open>
  \<^verbatim>\<open>openai_func_to_anthropic\<close> copies the declaration and renames \<^verbatim>\<open>parameters\<close> on the
  copy. A list has \<^verbatim>\<open>copy\<close> too, and its \<^verbatim>\<open>pop\<close> refuses a string.
\<close>

definition openai_func_to_anthropic :: "heap \<Rightarrow> pyval \<Rightarrow> error + pyval" where
  "openai_func_to_anthropic h openai_func =
     (case as_dict h openai_func of
        None \<Rightarrow>
          (case openai_func of PList xs \<Rightarrow> Inl TypeError | _ \<Rightarrow> Inl (AttributeError ''copy''))
      | Some res \<Rightarrow>
          (case dict_pop res ''parameters'' of
             Inl e \<Rightarrow> Inl e
           | Inr (parameters, res') \<Rightarrow>
               Inr (PDict (AList.update ''input_schema'' parameters res'))))"

fun convert_tools_loop :: "heap \<Rightarrow> pyval list \<Rightarrow> pyval list \<Rightarrow> error + pyval list" where
  "convert_tools_loop h functions [] = Inr functions"
| "convert_tools_loop h functions (tool # tools) =
     (case get_method h tool ''type'' of
        Inl e \<Rightarrow> Inl e
      | Inr ty \<Rightarrow>
          if ty = PStr ''function'' then
            (case contains h tool ''function'' of
               Inl e \<Rightarrow> Inl e
             | Inr True \<Rightarrow>
                 (case subscript h tool ''function'' of
                    Inl e \<Rightarrow> Inl e
                  | Inr f \<Rightarrow> convert_tools_loop h (functions @ [f]) tools)
             | Inr False \<Rightarrow> convert_tools_loop h functions tools)
          else convert_tools_loop h functions tools)"

definition convert_tools_to_functions :: "heap \<Rightarrow> pyval \<Rightarrow> error + pyval list" where
  "convert_tools_to_functions h tools =
     (case iterate h tools of
        Inl e \<Rightarrow> Inl e
      | Inr ts \<Rightarrow> convert_tools_loop h [] ts)"

subsection \<open>\<^verbatim>\<open>create\<close>\<close>

text \<open>
  \<^verbatim>\<open>params\<close> is the dict at address \<open>p\<close> of the store. Every function below returns the
  store it leaves behind, also when it raises: what was written before a fault stays
  written.

  The loop over \<^verbatim>\<open>enumerate(valid_messages)\<close> is \<open>create_loop\<close>, which reads
  \<^verbatim>\<open>old_message = raw_contents[i]\<close>, and \<open>create_step\<close> is the chain of tests that
  follows (lines 90 to 103). \<open>message\<close> is the filtered copy of the turn, a new dict that
  nothing else refers to: the assignment to \<^verbatim>\<open>message["content"]\<close> changes that copy
  only, and the copy is what is appended. \<open>old_message\<close> is the caller's turn, read from
  the store as it is at that moment.
\<close>

definition create_step ::
  "AnthropicClient \<Rightarrow> nat \<Rightarrow> heap \<Rightarrow> pyval list \<Rightarrow> pyval \<Rightarrow> dict
     \<Rightarrow> heap \<times> (error + pyval list)" where
  "create_step self p h processed_messages old_message message =
     (case getitem message ''role'' of
        Inl e \<Rightarrow> (h, Inl e)
      | Inr role \<Rightarrow>
          if role = PStr ''system'' then
            (case getitem message ''content'' of
               Inl e \<Rightarrow> (h, Inl e)
             | Inr c \<Rightarrow> (h(p := AList.update ''system'' c (h p)), Inr processed_messages))
          else if role = PStr ''function'' then
            (case getitem message ''content'' of
               Inl e \<Rightarrow> (h, Inl e)
             | Inr c \<Rightarrow>
                 (case return_function_call_result h self c of
                    Inl e \<Rightarrow> (h, Inl e)
                  | Inr turn \<Rightarrow> (h, Inr (processed_messages @ [turn]))))
          else
            (case contains h old_message ''function_call'' of
               Inl e \<Rightarrow> (h, Inl e)
             | Inr True \<Rightarrow>
                 (case restore_last_tooluse_status h self of
                    Inl e \<Rightarrow> (h, Inl e)
                  | Inr turn \<Rightarrow> (h, Inr (processed_messages @ [turn])))
             | Inr False \<Rightarrow>
                 (case getitem message ''content'' of
                    Inl e \<Rightarrow> (h, Inl e)
                  | Inr c \<Rightarrow>
                      if c = PStr [] then
                        (h, Inr (processed_messages @
                           [PDict (AList.update ''content''
                                     (PStr ''I'm done. Please send TERMINATE'') message)]))
                      else (h, Inr (processed_messages @ [PDict message])))))"

fun create_loop ::
  "AnthropicClient \<Rightarrow> nat \<Rightarrow> pyval \<Rightarrow> heap \<Rightarrow> pyval list \<Rightarrow> (nat \<times> dict) list
     \<Rightarrow> heap \<times> (error + pyval list)" where
  "create_loop self p raw_contents h processed_messages [] = (h, Inr processed_messages)"
| "create_loop self p raw_contents h processed_messages ((i, message) # rest) =
     (case index h raw_contents (int i) of
        Inl e \<Rightarrow> (h, Inl e)
      | Inr old_message \<Rightarrow>
          (case create_step self p h processed_messages old_message message of
             (h', Inl e) \<Rightarrow> (h', Inl e)
           | (h', Inr processed_messages') \<Rightarrow>
               create_loop self p raw_contents h' processed_messages' rest))"

text \<open>Lines 81 to 83: the tool declarations are unwrapped and added to
  \<^verbatim>\<open>params["functions"]\<close>. Only a list can be added to the list of converted functions.\<close>

definition create_tools :: "heap \<Rightarrow> nat \<Rightarrow> heap \<times> (error + unit)" where
  "create_tools h p =
     (if has_key ''tools'' (h p) then
        (case getitem (h p) ''tools'' of
           Inl e \<Rightarrow> (h, Inl e)
         | Inr tools \<Rightarrow>
             (case convert_tools_to_functions h tools of
                Inl e \<Rightarrow> (h, Inl e)
              | Inr converted_functions \<Rightarrow>
                  (case dict_get (h p) ''functions'' (PList []) of
                     PList functions \<Rightarrow>
                       (h(p := AList.update ''functions''
                                 (PList (functions @ converted_functions)) (h p)),
                        Inr ())
                   | _ \<Rightarrow> (h, Inl TypeError))))
      else (h, Inr ()))"

text \<open>Lines 85 to 105: the turns are filtered and translated, and the result replaces
  \<^verbatim>\<open>params["messages"]\<close>.\<close>

definition create_messages ::
  "'m library \<Rightarrow> AnthropicClient \<Rightarrow> heap \<Rightarrow> nat \<Rightarrow> heap \<times> (error + unit)" where
  "create_messages lib self h p =
     (case getitem (h p) ''messages'' of
        Inl e \<Rightarrow> (h, Inl e)
      | Inr raw_contents \<Rightarrow>
          (case pop_invalid_message_keys (model_fields lib) h raw_contents of
             Inl e \<Rightarrow> (h, Inl e)
           | Inr (valid_messages, invalid) \<Rightarrow>
               (case create_loop self p raw_contents h [] (enumerate 0 valid_messages) of
                  (h', Inl e) \<Rightarrow> (h', Inl e)
                | (h', Inr processed_messages) \<Rightarrow>
                    (h'(p := AList.update ''messages'' (PList processed_messages) (h' p)),
                     Inr ()))))"

text \<open>
  Lines 107 to 121: the endpoint is chosen, \<^verbatim>\<open>params\<close> is copied and the copy is made into
  the keyword arguments of the call of the SDK. The model stops at that call, which is
  outside the repository: the result of \<^verbatim>\<open>create\<close> is the call that is made.
\<close>

datatype completions = Client_messages | Client_beta_tools_messages

definition create_request ::
  "'m library \<Rightarrow> heap \<Rightarrow> nat \<Rightarrow> error + (completions \<times> dict)" where
  "create_request lib h p =
     (let completions =
            (if TOOL_ENABLED lib \<and> has_key ''functions'' (h p)
             then Client_beta_tools_messages else Client_messages);
          params1 = AList.update ''stream'' (PBool False) (h p)
      in case dict_pop params1 ''model_client_cls'' of
           Inl e \<Rightarrow> Inl e
         | Inr (cls, params2) \<Rightarrow>
             (let params3 =
                    AList.update ''max_tokens''
                      (dict_get params2 ''max_tokens'' (PInt 4096)) params2
              in if has_key ''functions'' params3 then
                   (case dict_pop params3 ''functions'' of
                      Inl e \<Rightarrow> Inl e
                    | Inr (tools_configs, params4) \<Rightarrow>
                        (case iterate h tools_configs of
                           Inl e \<Rightarrow> Inl e
                         | Inr tools \<Rightarrow>
                             (case traverse (openai_func_to_anthropic h) tools of
                                Inl e \<Rightarrow> Inl e
                              | Inr tools_configs' \<Rightarrow>
                                  Inr (completions,
                                       AList.update ''tools'' (PList tools_configs')
                                         params4))))
                 else Inr (completions, params3)))"

definition create ::
  "'m library \<Rightarrow> AnthropicClient \<Rightarrow> heap \<Rightarrow> nat
     \<Rightarrow> heap \<times> (error + (completions \<times> dict))" where
  "create lib self h p =
     (case create_tools h p of
        (h1, Inl e) \<Rightarrow> (h1, Inl e)
      | (h1, Inr u) \<Rightarrow>
          (case create_messages lib self h1 p of
             (h2, Inl e) \<Rightarrow> (h2, Inl e)
           | (h2, Inr u') \<Rightarrow> (h2, create_request lib h2 p)))"

subsection \<open>\<^verbatim>\<open>message_retrieval\<close>\<close>

definition response_to_openai_message :: "'m library \<Rightarrow> block \<Rightarrow> error + 'm" where
  "response_to_openai_message lib response =
     (case model_dump response of
        PDict dict_response \<Rightarrow>
          (case getitem dict_response ''name'' of
             Inl e \<Rightarrow> Inl e
           | Inr name \<Rightarrow>
               (case getitem dict_response ''input'' of
                  Inl e \<Rightarrow> Inl e
                | Inr input \<Rightarrow>
                    (case json_dumps lib input of
                       Inl e \<Rightarrow> Inl e
                     | Inr arguments \<Rightarrow>
                         ChatCompletionMessage lib PNone (PStr ''assistant'')
                           (PDict [(''name'', name), (''arguments'', PStr arguments)]))))
      | _ \<Rightarrow> Inl TypeError)"

text \<open>The loop of the branch taken when \<^verbatim>\<open>TOOL_ENABLED\<close> holds; \<open>res\<close> is the list being
  built and the store holds \<^verbatim>\<open>_last_tooluse_status\<close>.\<close>

fun retrieval_loop ::
  "'m library \<Rightarrow> AnthropicClient \<Rightarrow> heap \<Rightarrow> 'm retrieved list \<Rightarrow> block list
     \<Rightarrow> heap \<times> (error + 'm retrieved list)" where
  "retrieval_loop lib self h res [] = (h, Inr res)"
| "retrieval_loop lib self h res (choice # rest) =
     (case getattr choice ''type'' of
        Inl e \<Rightarrow> (h, Inl e)
      | Inr ty \<Rightarrow>
          if ty = PStr ''tool_use'' then
            (case response_to_openai_message lib choice of
               Inl e \<Rightarrow> (h, Inl e)
             | Inr m \<Rightarrow>
                 retrieval_loop lib self
                   (h(last_tooluse_status self :=
                        AList.update ''tool_use'' (model_dump choice)
                          (h (last_tooluse_status self))))
                   (Message m # res) rest)
          else
            (case getattr choice ''text'' of
               Inl e \<Rightarrow> (h, Inl e)
             | Inr text \<Rightarrow>
                 retrieval_loop lib self
                   (h(last_tooluse_status self :=
                        AList.update ''think'' text (h (last_tooluse_status self))))
                   (res @ [Plain text]) rest))"

text \<open>The comprehension of the other branch reads \<^verbatim>\<open>choice.message.function_call\<close>
  first, to choose between \<^verbatim>\<open>choice.text\<close> and \<^verbatim>\<open>choice.message.content\<close>.\<close>

definition legacy_choice :: "block \<Rightarrow> error + 'm retrieved" where
  "legacy_choice choice =
     (case getattr choice ''message'' of
        Inl e \<Rightarrow> Inl e
      | Inr message \<Rightarrow>
          (case getattr_data message ''function_call'' of
             Inl e \<Rightarrow> Inl e
           | Inr function_call \<Rightarrow>
               if function_call \<noteq> PNone then
                 (case getattr choice ''text'' of Inl e \<Rightarrow> Inl e | Inr t \<Rightarrow> Inr (Plain t))
               else
                 (case getattr_data message ''content'' of
                    Inl e \<Rightarrow> Inl e
                  | Inr c \<Rightarrow> Inr (Plain c))))"

definition message_retrieval ::
  "'m library \<Rightarrow> AnthropicClient \<Rightarrow> heap \<Rightarrow> response
     \<Rightarrow> heap \<times> (error + 'm retrieved list)" where
  "message_retrieval lib self h response =
     (let messages = content response
      in if length messages = 0 then (h, Inr [Plain PNone])
         else if TOOL_ENABLED lib then retrieval_loop lib self h [] messages
         else (h, traverse legacy_choice messages))"

subsection \<open>\<^verbatim>\<open>cost\<close>\<close>

text \<open>
  \<^verbatim>\<open>cost\<close> computes in Python's numbers: the token counts are integers, the prices of
  the table \<^verbatim>\<open>ANTHROPIC_PRICE1MM\<close> (defined in \<^verbatim>\<open>openai_utils\<close>, outside this module)
  are integers or floats, and the total is a float. The floats, \<open>'f\<close>, and the
  operations on them are parameters: the product of a count and a price, the true
  division by \<^verbatim>\<open>1_000_000\<close>, the sum of two floats and the float \<^verbatim>\<open>0.0\<close>. A product or
  a division of integers too large for a float raises.
\<close>

datatype 'f number = PyInt int | PyFloat 'f

record 'f arithmetic =
  float_zero :: 'f
  times :: "int \<Rightarrow> 'f number \<Rightarrow> error + 'f number"
  divide_million :: "'f number \<Rightarrow> error + 'f"
  plus_float :: "'f \<Rightarrow> 'f \<Rightarrow> 'f"

fun cost_loop ::
  "'f arithmetic \<Rightarrow> (string \<times> 'f number) list \<Rightarrow> 'f \<Rightarrow> (string \<times> int) list
     \<Rightarrow> error + 'f" where
  "cost_loop ar price_per_million total' [] = Inr total'"
| "cost_loop ar price_per_million total' ((key, v) # rest) =
     (case map_of price_per_million key of
        None \<Rightarrow> Inl (KeyError (PStr key))
      | Some price \<Rightarrow>
          (case times ar v price of
             Inl e \<Rightarrow> Inl e
           | Inr product \<Rightarrow>
               (case divide_million ar product of
                  Inl e \<Rightarrow> Inl e
                | Inr x \<Rightarrow> cost_loop ar price_per_million (plus_float ar total' x) rest)))"

definition cost ::
  "'f arithmetic \<Rightarrow> (string \<times> (string \<times> 'f number) list) list \<Rightarrow> AnthropicClient
     \<Rightarrow> response \<Rightarrow> error + 'f number" where
  "cost ar ANTHROPIC_PRICE1MM self response =
     (let tokens =
            [(''input'', case usage response of None \<Rightarrow> 0 | Some u \<Rightarrow> input_tokens u),
             (''output'', case usage response of None \<Rightarrow> 0 | Some u \<Rightarrow> output_tokens u)]
      in case map_of ANTHROPIC_PRICE1MM (model self) of
           None \<Rightarrow> Inr (PyInt 0)
         | Some price_per_million \<Rightarrow>
             (case cost_loop ar price_per_million (float_zero ar) tokens of
                Inl e \<Rightarrow> Inl e
              | Inr total' \<Rightarrow> Inr (PyFloat total')))"

section \<open>Predicates and examples for the properties\<close>

text \<open>The test of line 57 on a content block, and the messages made by
  \<^verbatim>\<open>ChatCompletionMessage\<close> in a result of \<^verbatim>\<open>message_retrieval\<close>, in their order.\<close>

definition is_tool_use :: "block \<Rightarrow> bool" where
  "is_tool_use choice = (getattr choice ''type'' = Inr (PStr ''tool_use''))"

fun function_call_messages :: "'m retrieved list \<Rightarrow> 'm list" where
  "function_call_messages [] = []"
| "function_call_messages (Message m # rs) = m # function_call_messages rs"
| "function_call_messages (Plain t # rs) = function_call_messages rs"

text \<open>A content block that the loop of lines 56 to 62 gets through without a fault.\<close>

definition retrievable :: "'m library \<Rightarrow> block \<Rightarrow> bool" where
  "retrievable lib choice =
     (case getattr choice ''type'' of
        Inl e \<Rightarrow> False
      | Inr ty \<Rightarrow>
          if ty = PStr ''tool_use'' then
            (case response_to_openai_message lib choice of Inl e \<Rightarrow> False | Inr m \<Rightarrow> True)
          else (case getattr choice ''text'' of Inl e \<Rightarrow> False | Inr t \<Rightarrow> True))"

text \<open>
  The keys of the request mapping that \<^verbatim>\<open>create\<close> assigns before it copies the mapping
  (lines 83, 91 and 105), and the relation between two stores that differ at most in the
  values of these keys in the dict at address \<open>p\<close>.
\<close>

definition request_keys :: "string set" where
  "request_keys = {''functions'', ''system'', ''messages''}"

definition writes_only :: "nat \<Rightarrow> heap \<Rightarrow> heap \<Rightarrow> bool" where
  "writes_only p h h' =
     ((\<forall>a. a \<noteq> p \<longrightarrow> h' a = h a) \<and>
      filter (\<lambda>kv. fst kv \<notin> request_keys) (h' p) =
      filter (\<lambda>kv. fst kv \<notin> request_keys) (h p))"

text \<open>
  A turn that is already in the shape of the target: a dict with recognised keys only,
  a role other than \<^verbatim>\<open>system\<close> and \<^verbatim>\<open>function\<close>, no \<^verbatim>\<open>function_call\<close> marker and a
  content other than the empty string. \<open>dict_value\<close> is the dict of a turn as a value.
\<close>

definition target_shaped :: "string list \<Rightarrow> heap \<Rightarrow> pyval \<Rightarrow> bool" where
  "target_shaped valid_keys h turn =
     (case as_dict h turn of
        None \<Rightarrow> False
      | Some m \<Rightarrow>
          list_all (\<lambda>kv. fst kv \<in> set valid_keys) m \<and>
          (case map_of m ''role'' of
             None \<Rightarrow> False
           | Some role \<Rightarrow> role \<noteq> PStr ''system'' \<and> role \<noteq> PStr ''function'') \<and>
          \<not> has_key ''function_call'' m \<and>
          (case map_of m ''content'' of None \<Rightarrow> False | Some c \<Rightarrow> c \<noteq> PStr []))"

definition dict_value :: "heap \<Rightarrow> pyval \<Rightarrow> pyval" where
  "dict_value h turn = (case as_dict h turn of None \<Rightarrow> PNone | Some m \<Rightarrow> PDict m)"

text \<open>
  An instance for the examples: the fields of the \<^verbatim>\<open>Message\<close> class of the SDK, a
  serialiser that knows the empty payload only, and a constructor that keeps its three
  arguments. The store holds a request at address 0 and its four turns at 1 to 4; at 9
  the status of a client that has remembered the tool use \<^verbatim>\<open>t1\<close>, and at 8 the status
  of a new client. Two more requests live in stores of their own: one with no turns, one
  with a single turn, both without \<^verbatim>\<open>model_client_cls\<close>.
\<close>

definition example_library :: "pyval library" where
  "example_library =
     \<lparr>TOOL_ENABLED = True,
      model_fields = [''id'', ''content'', ''model'', ''role'', ''stop_reason'',
                      ''stop_sequence'', ''type'', ''usage''],
      json_dumps = (\<lambda>v. if v = PDict [] then Inr ''{}'' else Inl TypeError),
      ChatCompletionMessage =
        (\<lambda>c r f. Inr (PDict [(''content'', c), (''role'', r), (''function_call'', f)]))\<rparr>"

definition example_client :: AnthropicClient where
  "example_client = \<lparr>model = ''claude-3-opus-20240229'', last_tooluse_status = 9\<rparr>"

definition example_new_client :: AnthropicClient where
  "example_new_client = \<lparr>model = ''claude-3-opus-20240229'', last_tooluse_status = 8\<rparr>"

definition example_tool_use :: pyval where
  "example_tool_use =
     PDict [(''id'', PStr ''t1''), (''input'', PDict []), (''name'', PStr ''search''),
            (''type'', PStr ''tool_use'')]"

definition example_heap :: heap where
  "example_heap =
     (\<lambda>a. [])
       (0 := [(''model_client_cls'', PStr ''AnthropicClient''),
              (''messages'', PList [PRef 1, PRef 2, PRef 3, PRef 4])],
        1 := [(''role'', PStr ''system''), (''content'', PStr ''be brief'')],
        2 := [(''role'', PStr ''user''), (''content'', PStr []), (''name'', PStr ''bob'')],
        3 := [(''role'', PStr ''assistant''), (''content'', PStr ''calling''),
              (''function_call'',
               PDict [(''name'', PStr ''search''), (''arguments'', PStr ''{}'')])],
        4 := [(''role'', PStr ''function''), (''content'', PStr ''42'')],
        9 := [(''think'', PStr ''let me look''), (''tool_use'', example_tool_use)])"

definition example_response :: response where
  "example_response =
     \<lparr>content =
        [[(''text'', PStr ''let me look''), (''type'', PStr ''text'')],
         [(''id'', PStr ''t1''), (''input'', PDict []), (''name'', PStr ''search''),
          (''type'', PStr ''tool_use'')],
         [(''id'', PStr ''t2''), (''input'', PDict []), (''name'', PStr ''fetch''),
          (''type'', PStr ''tool_use'')]],
      usage = Some \<lparr>input_tokens = 100, output_tokens = 50\<rparr>\<rparr>"

definition example_empty_request :: heap where
  "example_empty_request = (\<lambda>a. [])(0 := [(''messages'', PList [])])"

definition example_bare_request :: heap where
  "example_bare_request =
     (\<lambda>a. [])
       (0 := [(''messages'', PList [PRef 1])],
        1 := [(''role'', PStr ''user''), (''content'', PStr ''hi'')])"

section \<open>Properties\<close>

lemmas python_defs =
  has_key_def getitem_def dict_get_def dict_pop_def as_dict_def items_def get_method_def
  subscript_def list_index_def index_def iterate_def contains_def getattr_def

lemmas example_defs =
  example_library_def example_client_def example_new_client_def example_tool_use_def
  example_heap_def example_response_def example_empty_request_def example_bare_request_def

subsection \<open>Reading a dict\<close>

lemma map_of_filter_keys:
  "P k \<Longrightarrow> map_of (filter (\<lambda>kv. P (fst kv)) d) k = map_of d k"
  by (induction d) auto


lemma getitem_absent: "\<not> has_key k d \<Longrightarrow> getitem d k = Inl (KeyError (PStr k))"
  by (simp add: has_key_def getitem_def)

lemma filter_update_other:
  "k \<in> ks \<Longrightarrow>
   filter (\<lambda>kv. fst kv \<notin> ks) (AList.update k v d) = filter (\<lambda>kv. fst kv \<notin> ks) d"
  by (induction d) auto

subsection \<open>Translation of one turn\<close>



text \<open>
  C5. On a client whose status holds no \<^verbatim>\<open>tool_use\<close>, as it is from the constructor until
  a response with a tool-use block has been retrieved, both readers of the status raise
  \<^verbatim>\<open>KeyError('tool_use')\<close>, and \<^verbatim>\<open>create\<close> does not catch it: the step of the loop on a
  turn of role \<^verbatim>\<open>function\<close>, and on a turn that carries a \<^verbatim>\<open>function_call\<close> marker, ends
  with that same fault.
\<close>

theorem recall_before_remember_raises:
  assumes "\<not> has_key ''tool_use'' (h (last_tooluse_status self))"
  shows "restore_last_tooluse_status h self = Inl (KeyError (PStr ''tool_use''))
       \<and> return_function_call_result h self result = Inl (KeyError (PStr ''tool_use''))
       \<and> (getitem message ''role'' = Inr (PStr ''function'') \<longrightarrow>
            getitem message ''content'' = Inr result \<longrightarrow>
            create_step self p h processed old_message message =
              (h, Inl (KeyError (PStr ''tool_use''))))
       \<and> (getitem message' ''role'' = Inr role \<longrightarrow> role \<noteq> PStr ''system'' \<longrightarrow>
            role \<noteq> PStr ''function'' \<longrightarrow>
            contains h old_message' ''function_call'' = Inr True \<longrightarrow>
            create_step self p h processed old_message' message' =
              (h, Inl (KeyError (PStr ''tool_use''))))"
  using getitem_absent [OF assms]
  by (simp add: restore_last_tooluse_status_def return_function_call_result_def
        create_step_def Let_def)

theorem recall_before_remember_raises_witness:
  "\<not> has_key ''tool_use'' (example_heap (last_tooluse_status example_new_client)) \<and>
   restore_last_tooluse_status example_heap example_new_client =
     Inl (KeyError (PStr ''tool_use'')) \<and>
   return_function_call_result example_heap example_new_client (PStr ''42'') =
     Inl (KeyError (PStr ''tool_use'')) \<and>
   create_step example_new_client 0 example_heap [] (PRef 4) (example_heap 4) =
     (example_heap, Inl (KeyError (PStr ''tool_use''))) \<and>
   create_step example_new_client 0 example_heap [] (PRef 3)
     [(''role'', PStr ''assistant''), (''content'', PStr ''calling'')] =
     (example_heap, Inl (KeyError (PStr ''tool_use'')))"
proof -
  have a: "\<not> has_key ''tool_use'' (example_heap (last_tooluse_status example_new_client))"
    by (simp add: example_heap_def example_new_client_def has_key_def)
  have b: "getitem (example_heap 4) ''role'' = Inr (PStr ''function'')"
    and c: "getitem (example_heap 4) ''content'' = Inr (PStr ''42'')"
    and d: "getitem [(''role'', PStr ''assistant''), (''content'', PStr ''calling'')] ''role'' =
              Inr (PStr ''assistant'')"
    and e: "contains example_heap (PRef 3) ''function_call'' = Inr True"
    by (simp_all add: example_heap_def getitem_def contains_def has_key_def)
  show ?thesis
    using a b c d e
      recall_before_remember_raises
        [where h = example_heap and self = example_new_client
           and message = "example_heap 4" and result = "PStr ''42''" and p = 0
           and processed = "[]" and old_message = "PRef 4"
           and message' = "[(''role'', PStr ''assistant''), (''content'', PStr ''calling'')]"
           and role = "PStr ''assistant''" and old_message' = "PRef 3"]
    by simp
qed

text \<open>
  The example request on a new client: the third turn carries a \<^verbatim>\<open>function_call\<close>
  marker, and \<^verbatim>\<open>create\<close> ends with the fault of the status, after the first turn has
  been moved to \<^verbatim>\<open>params["system"]\<close>.
\<close>

lemma example_create_unprimed:
  "create example_library example_new_client example_heap 0 =
     (example_heap
        (0 := [(''model_client_cls'', PStr ''AnthropicClient''),
               (''messages'', PList [PRef 1, PRef 2, PRef 3, PRef 4]),
               (''system'', PStr ''be brief'')]),
      Inl (KeyError (PStr ''tool_use'')))"
  by (simp add: create_def create_tools_def create_messages_def
        pop_invalid_message_keys_def create_step_def restore_last_tooluse_status_def
        python_defs example_defs enumerate_eq_zip upt_rec [of 0] Let_def)



subsection \<open>What \<^verbatim>\<open>create\<close> writes\<close>

lemma writes_only_refl: "writes_only p h h"
  by (simp add: writes_only_def)

lemma writes_only_trans:
  "writes_only p h h' \<Longrightarrow> writes_only p h' h'' \<Longrightarrow> writes_only p h h''"
  by (simp add: writes_only_def)

lemma writes_only_update:
  "k \<in> request_keys \<Longrightarrow> writes_only p h (h(p := AList.update k v (h p)))"
  by (simp add: writes_only_def filter_update_other)

lemma create_step_frame:
  "create_step self p h processed old_message message = (h', r) \<Longrightarrow> writes_only p h h'"
  by (auto simp: create_step_def writes_only_refl writes_only_update request_keys_def
           split: sum.splits if_splits bool.splits)

lemma create_loop_frame:
  "create_loop self p raw h processed xs = (h', r) \<Longrightarrow> writes_only p h h'"
proof (induction xs arbitrary: h processed)
  case Nil
  then show ?case by (simp add: writes_only_refl)
next
  case (Cons x xs)
  obtain i message where x: "x = (i, message)" by (cases x)
  show ?case
  proof (cases "index h raw (int i)")
    case (Inl e)
    then show ?thesis using Cons.prems x by (simp add: writes_only_refl)
  next
    case (Inr old_message)
    obtain h1 r1 where s: "create_step self p h processed old_message message = (h1, r1)"
      by (cases "create_step self p h processed old_message message")
    have f1: "writes_only p h h1" using create_step_frame [OF s] .
    show ?thesis
    proof (cases r1)
      case (Inl e)
      then show ?thesis using Cons.prems x Inr s f1 by simp
    next
      case (Inr processed')
      then have "create_loop self p raw h1 processed' xs = (h', r)"
        using Cons.prems x \<open>index h raw (int i) = Inr old_message\<close> s by simp
      from Cons.IH [OF this] f1 show ?thesis by (rule writes_only_trans [rotated])
    qed
  qed
qed

lemma create_tools_frame: "create_tools h p = (h', r) \<Longrightarrow> writes_only p h h'"
  by (auto simp: create_tools_def writes_only_refl writes_only_update request_keys_def
           split: sum.splits if_splits pyval.splits)

lemma create_messages_frame:
  assumes "create_messages lib self h p = (h', r)"
  shows "writes_only p h h'"
proof (cases "getitem (h p) ''messages''")
  case (Inl e)
  then show ?thesis using assms by (simp add: create_messages_def writes_only_refl)
next
  case raw: (Inr raw_contents)
  show ?thesis
  proof (cases "pop_invalid_message_keys (model_fields lib) h raw_contents")
    case (Inl e)
    then show ?thesis using assms raw by (simp add: create_messages_def writes_only_refl)
  next
    case (Inr vi)
    obtain valid_messages invalid where vi: "vi = (valid_messages, invalid)" by (cases vi)
    obtain h1 r1 where
      l: "create_loop self p raw_contents h [] (enumerate 0 valid_messages) = (h1, r1)"
      by (cases "create_loop self p raw_contents h [] (enumerate 0 valid_messages)")
    have f1: "writes_only p h h1" using create_loop_frame [OF l] .
    show ?thesis
    proof (cases r1)
      case (Inl e)
      then show ?thesis using assms raw Inr vi l f1 by (simp add: create_messages_def)
    next
      case (Inr processed_messages)
      then have "h' = h1(p := AList.update ''messages'' (PList processed_messages) (h1 p))"
        using assms raw \<open>pop_invalid_message_keys (model_fields lib) h raw_contents = Inr vi\<close>
          vi l
        by (simp add: create_messages_def)
      then have "writes_only p h1 h'"
        by (simp add: writes_only_update request_keys_def)
      with f1 show ?thesis by (rule writes_only_trans)
    qed
  qed
qed

lemma create_frame:
  assumes "create lib self h p = (h', r)"
  shows "writes_only p h h'"
proof -
  obtain h1 r1 where t: "create_tools h p = (h1, r1)" by (cases "create_tools h p")
  have f1: "writes_only p h h1" using create_tools_frame [OF t] .
  show ?thesis
  proof (cases r1)
    case (Inl e)
    then show ?thesis using assms t f1 by (simp add: create_def)
  next
    case (Inr u)
    obtain h2 r2 where m: "create_messages lib self h1 p = (h2, r2)"
      by (cases "create_messages lib self h1 p")
    have f2: "writes_only p h1 h2" using create_messages_frame [OF m] .
    have "h' = h2" using assms t Inr m by (cases r2) (simp_all add: create_def)
    with f1 f2 show ?thesis by (simp add: writes_only_trans)
  qed
qed

lemma has_key_frame:
  assumes "writes_only p h h'" and "k \<notin> request_keys"
  shows "has_key k (h' p) = has_key k (h p)"
proof -
  have "map_of (filter (\<lambda>kv. fst kv \<notin> request_keys) (h' p)) k = map_of (h' p) k"
    and "map_of (filter (\<lambda>kv. fst kv \<notin> request_keys) (h p)) k = map_of (h p) k"
    using assms(2) by (simp_all add: map_of_filter_keys [of "\<lambda>k. k \<notin> request_keys"])
  then show ?thesis using assms(1) by (simp add: writes_only_def has_key_def)
qed





subsection \<open>The key \<^verbatim>\<open>model_client_cls\<close>\<close>







subsection \<open>\<^verbatim>\<open>message_retrieval\<close>\<close>

text \<open>
  C2. With \<^verbatim>\<open>TOOL_ENABLED\<close> false, the response whose content is the one text block
  \<^verbatim>\<open>{type: text, text: hello}\<close> is not retrieved as \<^verbatim>\<open>["hello"]\<close>: the comprehension of
  line 68 reads \<^verbatim>\<open>choice.message\<close>, which the block does not have, and raises
  \<^verbatim>\<open>AttributeError\<close>. No response with a content block is retrieved on that branch.
\<close>

theorem legacy_text_block_raises:
  "message_retrieval (lib\<lparr>TOOL_ENABLED := False\<rparr>) self h
     \<lparr>content = [[(''type'', PStr ''text''), (''text'', PStr ''hello'')]], usage = u\<rparr> =
   (h, Inl (AttributeError ''message''))"
  by (simp add: message_retrieval_def legacy_choice_def getattr_def)

lemma legacy_branch_never_returns:
  "content response \<noteq> [] \<Longrightarrow>
   \<exists>e. message_retrieval (lib\<lparr>TOOL_ENABLED := False\<rparr>) self h response = (h, Inl e)"
  by (cases "content response")
     (auto simp: message_retrieval_def legacy_choice_def getattr_data_def split: sum.splits)

text \<open>
  The list that the loop of the other branch returns: the messages of the tool-use
  blocks, last block first, then what was there, then the texts of the other blocks in
  their order.
\<close>

lemma retrieval_loop_result:
  "retrieval_loop lib self h res bs = (h', Inr res') \<Longrightarrow>
   \<exists>ms ts. res' = map Message (rev ms) @ res @ map Plain ts
     \<and> map Inr ms = map (response_to_openai_message lib) (filter is_tool_use bs)
     \<and> map Inr ts = map (\<lambda>b. getattr b ''text'') (filter (\<lambda>b. \<not> is_tool_use b) bs)"
proof (induction bs arbitrary: h res)
  case Nil
  then show ?case by simp
next
  case (Cons b bs)
  show ?case
  proof (cases "is_tool_use b")
    case True
    then obtain m where m: "response_to_openai_message lib b = Inr m"
      and rest: "retrieval_loop lib self
                   (h(last_tooluse_status self :=
                        AList.update ''tool_use'' (model_dump b) (h (last_tooluse_status self))))
                   (Message m # res) bs = (h', Inr res')"
      using Cons.prems by (auto simp: is_tool_use_def split: sum.splits)
    from Cons.IH [OF rest] obtain ms ts where
      "res' = map Message (rev ms) @ (Message m # res) @ map Plain ts"
      "map Inr ms = map (response_to_openai_message lib) (filter is_tool_use bs)"
      "map Inr ts = map (\<lambda>b. getattr b ''text'') (filter (\<lambda>b. \<not> is_tool_use b) bs)"
      by blast
    then have "res' = map Message (rev (m # ms)) @ res @ map Plain ts
      \<and> map Inr (m # ms) = map (response_to_openai_message lib) (filter is_tool_use (b # bs))
      \<and> map Inr ts = map (\<lambda>b. getattr b ''text'') (filter (\<lambda>b. \<not> is_tool_use b) (b # bs))"
      using True m by simp
    then show ?thesis by blast
  next
    case False
    then obtain t where t: "getattr b ''text'' = Inr t"
      and rest: "retrieval_loop lib self
                   (h(last_tooluse_status self :=
                        AList.update ''think'' t (h (last_tooluse_status self))))
                   (res @ [Plain t]) bs = (h', Inr res')"
      using Cons.prems by (auto simp: is_tool_use_def split: sum.splits if_splits)
    from Cons.IH [OF rest] obtain ms ts where
      "res' = map Message (rev ms) @ (res @ [Plain t]) @ map Plain ts"
      "map Inr ms = map (response_to_openai_message lib) (filter is_tool_use bs)"
      "map Inr ts = map (\<lambda>b. getattr b ''text'') (filter (\<lambda>b. \<not> is_tool_use b) bs)"
      by blast
    then have "res' = map Message (rev ms) @ res @ map Plain (t # ts)
      \<and> map Inr ms = map (response_to_openai_message lib) (filter is_tool_use (b # bs))
      \<and> map Inr (t # ts) =
          map (\<lambda>b. getattr b ''text'') (filter (\<lambda>b. \<not> is_tool_use b) (b # bs))"
      using False t by simp
    then show ?thesis by blast
  qed
qed

lemma message_retrieval_result:
  assumes "TOOL_ENABLED lib" and "content response \<noteq> []"
    and "message_retrieval lib self h response = (h', Inr res)"
  shows "\<exists>ms ts. res = map Message (rev ms) @ map Plain ts
     \<and> map Inr ms = map (response_to_openai_message lib) (filter is_tool_use (content response))
     \<and> map Inr ts = map (\<lambda>b. getattr b ''text'')
                        (filter (\<lambda>b. \<not> is_tool_use b) (content response))"
  using assms retrieval_loop_result [of lib self h "[]" "content response" h' res]
  by (simp add: message_retrieval_def)

text \<open>The loop returns a list when it gets through every block.\<close>

lemma retrieval_loop_returns:
  "\<forall>b \<in> set bs. retrievable lib b \<Longrightarrow>
   \<exists>h' res'. retrieval_loop lib self h res bs = (h', Inr res')"
proof (induction bs arbitrary: h res)
  case Nil
  then show ?case by simp
next
  case (Cons b bs)
  then show ?case
    by (auto simp: retrievable_def split: sum.splits if_splits)
qed

lemma message_retrieval_returns:
  "TOOL_ENABLED lib \<Longrightarrow> \<forall>b \<in> set (content response). retrievable lib b \<Longrightarrow>
   \<exists>h' res. message_retrieval lib self h response = (h', Inr res)"
  using retrieval_loop_returns [of "content response" lib self h "[]"]
  by (cases "content response = []") (simp_all add: message_retrieval_def Let_def)

lemma function_call_messages_append:
  "function_call_messages (map Message ms @ map Plain ts) = ms"
proof (induction ms)
  case Nil
  show ?case by (induction ts) simp_all
next
  case (Cons m ms)
  then show ?case by simp
qed

lemma example_retrieval:
  "snd (message_retrieval example_library example_new_client example_heap example_response) =
     Inr [Message (PDict [(''content'', PNone), (''role'', PStr ''assistant''),
                          (''function_call'',
                           PDict [(''name'', PStr ''fetch''),
                                  (''arguments'', PStr ''{}'')])]),
          Message (PDict [(''content'', PNone), (''role'', PStr ''assistant''),
                          (''function_call'',
                           PDict [(''name'', PStr ''search''),
                                  (''arguments'', PStr ''{}'')])]),
          Plain (PStr ''let me look'')]"
  by (simp add: message_retrieval_def response_to_openai_message_def model_dump_def
        python_defs example_defs)

text \<open>
  C4. With \<^verbatim>\<open>TOOL_ENABLED\<close>, when the content of a response has a tool-use block, the
  list that \<^verbatim>\<open>message_retrieval\<close> returns is the messages made from the tool-use blocks
  followed by the texts of the other blocks: every message of a tool-use block comes
  before every text, wherever the blocks were in the response.
\<close>

theorem tool_use_messages_before_texts:
  assumes "TOOL_ENABLED lib" and "\<exists>b \<in> set (content response). is_tool_use b"
    and "message_retrieval lib self h response = (h', Inr res)"
  shows "\<exists>ms ts. res = map Message ms @ map Plain ts
     \<and> map Inr (rev ms) =
         map (response_to_openai_message lib) (filter is_tool_use (content response))
     \<and> map Inr ts = map (\<lambda>b. getattr b ''text'')
                        (filter (\<lambda>b. \<not> is_tool_use b) (content response))"
proof -
  from assms(2) have "content response \<noteq> []" by auto
  from message_retrieval_result [OF assms(1) this assms(3)] obtain ms ts where
    "res = map Message (rev ms) @ map Plain ts"
    "map Inr ms = map (response_to_openai_message lib) (filter is_tool_use (content response))"
    "map Inr ts = map (\<lambda>b. getattr b ''text'')
                    (filter (\<lambda>b. \<not> is_tool_use b) (content response))"
    by blast
  then have "res = map Message (rev ms) @ map Plain ts
     \<and> map Inr (rev (rev ms)) =
         map (response_to_openai_message lib) (filter is_tool_use (content response))
     \<and> map Inr ts = map (\<lambda>b. getattr b ''text'')
                        (filter (\<lambda>b. \<not> is_tool_use b) (content response))"
    by simp
  then show ?thesis by blast
qed

theorem tool_use_messages_before_texts_witness:
  "TOOL_ENABLED example_library \<and>
   (\<exists>b \<in> set (content example_response). is_tool_use b) \<and>
   (\<exists>ms ts.
      snd (message_retrieval example_library example_new_client example_heap
             example_response) =
        Inr (map Message ms @ map Plain ts) \<and>
      length ms = 2 \<and> ts = [PStr ''let me look''])"
proof -
  let ?h = "fst (message_retrieval example_library example_new_client example_heap
                   example_response)"
  let ?res = "[Message (PDict [(''content'', PNone), (''role'', PStr ''assistant''),
                          (''function_call'',
                           PDict [(''name'', PStr ''fetch''),
                                  (''arguments'', PStr ''{}'')])]),
          Message (PDict [(''content'', PNone), (''role'', PStr ''assistant''),
                          (''function_call'',
                           PDict [(''name'', PStr ''search''),
                                  (''arguments'', PStr ''{}'')])]),
          Plain (PStr ''let me look'')]"
  have 1: "TOOL_ENABLED example_library" by (simp add: example_library_def)
  have 2: "\<exists>b \<in> set (content example_response). is_tool_use b"
    by (simp add: example_response_def is_tool_use_def getattr_def)
  have 3: "message_retrieval example_library example_new_client example_heap
             example_response = (?h, Inr ?res)"
    using example_retrieval by (simp add: prod_eq_iff)
  from tool_use_messages_before_texts [OF 1 2 3] obtain ms ts where
    res: "?res = map Message ms @ map Plain ts"
    and ms: "map Inr (rev ms) =
         map (response_to_openai_message example_library)
           (filter is_tool_use (content example_response))"
    and ts: "map Inr ts = map (\<lambda>b. getattr b ''text'')
                        (filter (\<lambda>b. \<not> is_tool_use b) (content example_response))"
    by blast
  have "length ms = length (filter is_tool_use (content example_response))"
    using arg_cong [OF ms, of length] by simp
  then have l: "length ms = 2"
    by (simp add: example_response_def is_tool_use_def getattr_def)
  from ts have "map Inr ts = [Inr (PStr ''let me look'') :: error + pyval]"
    by (simp add: example_response_def is_tool_use_def getattr_def)
  then have t: "ts = [PStr ''let me look'']" by auto
  have "snd (message_retrieval example_library example_new_client example_heap
               example_response) = Inr (map Message ms @ map Plain ts)"
    by (simp only: example_retrieval res)
  with 1 2 l t show ?thesis by blast
qed

text \<open>
  C9. With \<^verbatim>\<open>TOOL_ENABLED\<close>, the messages made from the tool-use blocks of a response
  stand in the returned list in the reverse of the order of their blocks, each being
  inserted at position 0; so they do when there are two blocks or more.
\<close>

theorem tool_use_messages_reversed:
  assumes "TOOL_ENABLED lib" and "content response \<noteq> []"
    and "message_retrieval lib self h response = (h', Inr res)"
  shows "map Inr (function_call_messages res) =
         rev (map (response_to_openai_message lib)
                (filter is_tool_use (content response)))"
proof -
  from message_retrieval_result [OF assms] obtain ms ts where
    res: "res = map Message (rev ms) @ map Plain ts"
    and ms: "map Inr ms =
               map (response_to_openai_message lib) (filter is_tool_use (content response))"
    by blast
  have "function_call_messages res = rev ms"
    unfolding res by (rule function_call_messages_append)
  then show ?thesis using ms by (simp add: rev_map [symmetric])
qed

theorem tool_use_messages_reversed_witness:
  "TOOL_ENABLED example_library \<and> content example_response \<noteq> [] \<and>
   length (filter is_tool_use (content example_response)) = 2 \<and>
   map Inr
     (function_call_messages
        [Message (PDict [(''content'', PNone), (''role'', PStr ''assistant''),
                         (''function_call'',
                          PDict [(''name'', PStr ''fetch''),
                                 (''arguments'', PStr ''{}'')])]),
         Message (PDict [(''content'', PNone), (''role'', PStr ''assistant''),
                         (''function_call'',
                          PDict [(''name'', PStr ''search''),
                                 (''arguments'', PStr ''{}'')])]),
         Plain (PStr ''let me look'')]) =
   rev (map (response_to_openai_message example_library)
          (filter is_tool_use (content example_response)))"
proof -
  let ?h = "fst (message_retrieval example_library example_new_client example_heap
                   example_response)"
  have 1: "TOOL_ENABLED example_library" by (simp add: example_library_def)
  have 2: "content example_response \<noteq> []" by (simp add: example_response_def)
  have 3: "message_retrieval example_library example_new_client example_heap
             example_response =
           (?h, Inr [Message (PDict [(''content'', PNone), (''role'', PStr ''assistant''),
                         (''function_call'',
                          PDict [(''name'', PStr ''fetch''),
                                 (''arguments'', PStr ''{}'')])]),
         Message (PDict [(''content'', PNone), (''role'', PStr ''assistant''),
                         (''function_call'',
                          PDict [(''name'', PStr ''search''),
                                 (''arguments'', PStr ''{}'')])]),
         Plain (PStr ''let me look'')])"
    using example_retrieval by (simp add: prod_eq_iff)
  have 4: "length (filter is_tool_use (content example_response)) = 2"
    by (simp add: example_response_def is_tool_use_def getattr_def)
  from 1 2 4 tool_use_messages_reversed [OF 1 2 3] show ?thesis by blast
qed

subsection \<open>Turns that are already in the shape of the target\<close>

lemma target_shaped_dict:
  assumes "target_shaped ks h turn"
  obtains m role c where "as_dict h turn = Some m"
    and "filter (\<lambda>kv. fst kv \<in> set ks) m = m"
    and "getitem m ''role'' = Inr role" and "role \<noteq> PStr ''system''"
    and "role \<noteq> PStr ''function''" and "\<not> has_key ''function_call'' m"
    and "getitem m ''content'' = Inr c" and "c \<noteq> PStr []"
  using assms
  by (auto simp: target_shaped_def getitem_def list_all_iff split: option.splits)

lemma target_shaped_step:
  assumes "target_shaped ks h turn" and "as_dict h turn = Some m"
  shows "create_step self p h processed turn m = (h, Inr (processed @ [PDict m]))"
proof -
  from assms obtain role c where
    "getitem m ''role'' = Inr role" "role \<noteq> PStr ''system''" "role \<noteq> PStr ''function''"
    "\<not> has_key ''function_call'' m" "getitem m ''content'' = Inr c" "c \<noteq> PStr []"
    by (auto elim!: target_shaped_dict)
  moreover have "contains h turn ''function_call'' = Inr (has_key ''function_call'' m)"
    using assms(2) by (auto simp: as_dict_def contains_def split: pyval.splits)
  ultimately show ?thesis by (simp add: create_step_def)
qed

lemma target_shaped_traverse:
  assumes "\<forall>t \<in> set turns. target_shaped ks h t"
  shows "traverse (\<lambda>message. case items h message of
                                Inl e \<Rightarrow> Inl e
                              | Inr kvs \<Rightarrow> Inr (filter (\<lambda>kv. fst kv \<in> set ks) kvs)) turns =
         Inr (map (\<lambda>t. the (as_dict h t)) turns)"
  using assms
proof (induction turns)
  case Nil
  then show ?case by simp
next
  case (Cons t turns)
  then obtain m where "as_dict h t = Some m" "filter (\<lambda>kv. fst kv \<in> set ks) m = m"
    by (auto elim!: target_shaped_dict)
  with Cons show ?case by (simp add: items_def)
qed

lemma target_shaped_pop:
  assumes "\<forall>t \<in> set turns. target_shaped ks h t" and "turns \<noteq> []"
  shows "\<exists>invalid. pop_invalid_message_keys ks h (PList turns) =
           Inr (map (\<lambda>t. the (as_dict h t)) turns, invalid)"
proof -
  have "last turns \<in> set turns" using assms(2) by simp
  then obtain m where m: "as_dict h (last turns) = Some m"
    using assms(1) by (auto elim!: target_shaped_dict)
  have "index h (PList turns) (- 1) = Inr (last turns)"
    using assms(2)
    by (cases turns rule: rev_cases) (auto simp: index_def list_index_def nth_append)
  then show ?thesis
    using target_shaped_traverse [OF assms(1)] m
    by (simp add: pop_invalid_message_keys_def iterate_def items_def)
qed

lemma target_shaped_loop:
  assumes "\<forall>t \<in> set turns. target_shaped ks h t"
  shows "n + length ts = length turns \<Longrightarrow> ts = drop n turns \<Longrightarrow>
         create_loop self p (PList turns) h processed
           (enumerate n (map (\<lambda>t. the (as_dict h t)) ts)) =
         (h, Inr (processed @ map (dict_value h) ts))"
proof (induction ts arbitrary: n processed)
  case Nil
  then show ?case by simp
next
  case (Cons t ts)
  have n: "n < length turns" using Cons.prems(1) by simp
  have t: "turns ! n = t" and ts: "ts = drop (Suc n) turns"
    using Cons.prems(2) n by (simp_all add: Cons_nth_drop_Suc [symmetric])
  have "t \<in> set turns" using t n nth_mem by blast
  then have sh: "target_shaped ks h t" using assms by blast
  then obtain m where m: "as_dict h t = Some m" by (auto elim!: target_shaped_dict)
  have i: "index h (PList turns) (int n) = Inr t"
    using n t by (simp add: index_def list_index_def)
  have "create_loop self p (PList turns) h (processed @ [PDict m])
          (enumerate (Suc n) (map (\<lambda>t. the (as_dict h t)) ts)) =
        (h, Inr ((processed @ [PDict m]) @ map (dict_value h) ts))"
    using Cons.prems(1) ts by (intro Cons.IH) simp_all
  then show ?case
    using i m target_shaped_step [OF sh m, of self p processed]
    by (simp add: dict_value_def)
qed

lemma target_shaped_messages:
  assumes "getitem (h p) ''messages'' = Inr (PList turns)" and "turns \<noteq> []"
    and "\<forall>t \<in> set turns. target_shaped (model_fields lib) h t"
  shows "create_messages lib self h p =
           (h(p := AList.update ''messages'' (PList (map (dict_value h) turns)) (h p)),
            Inr ())"
proof -
  from target_shaped_pop [OF assms(3,2)] obtain invalid where
    "pop_invalid_message_keys (model_fields lib) h (PList turns) =
       Inr (map (\<lambda>t. the (as_dict h t)) turns, invalid)"
    by blast
  moreover have "create_loop self p (PList turns) h []
           (enumerate 0 (map (\<lambda>t. the (as_dict h t)) turns)) =
         (h, Inr ([] @ map (dict_value h) turns))"
    using assms(3) by (intro target_shaped_loop) simp_all
  ultimately show ?thesis using assms(1) by (simp add: create_messages_def)
qed

lemma target_shaped_value:
  "target_shaped ks h t \<Longrightarrow> target_shaped ks h' (dict_value h t)"
  by (auto simp: target_shaped_def dict_value_def as_dict_def split: option.splits)

lemma dict_value_value: "target_shaped ks h t \<Longrightarrow> dict_value h' (dict_value h t) = dict_value h t"
  by (auto simp: target_shaped_def dict_value_def as_dict_def split: option.splits)

text \<open>
  C7. When every turn of the request is already in the shape of the target (recognised
  keys only, a role other than \<^verbatim>\<open>system\<close> and \<^verbatim>\<open>function\<close>, no \<^verbatim>\<open>function_call\<close> marker,
  a content other than the empty string), the translation of lines 85 to 105 emits
  every turn with the entries it has, and running it again on what it has emitted
  changes nothing: twice is the same as once.
\<close>

theorem target_shaped_turns_unchanged:
  assumes "getitem (h p) ''messages'' = Inr (PList turns)" and "turns \<noteq> []"
    and "\<forall>t \<in> set turns. target_shaped (model_fields lib) h t"
  shows "create_messages lib self h p =
           (h(p := AList.update ''messages'' (PList (map (dict_value h) turns)) (h p)),
            Inr ())
       \<and> create_messages lib self (fst (create_messages lib self h p)) p =
           create_messages lib self h p"
proof -
  let ?vs = "map (dict_value h) turns"
  let ?h' = "h(p := AList.update ''messages'' (PList ?vs) (h p))"
  have first: "create_messages lib self h p = (?h', Inr ())"
    using assms by (rule target_shaped_messages)
  have 1: "getitem (?h' p) ''messages'' = Inr (PList ?vs)"
    by (simp add: getitem_def update_conv')
  have 2: "?vs \<noteq> []" using assms(2) by simp
  have 3: "\<forall>t \<in> set ?vs. target_shaped (model_fields lib) ?h' t"
    using assms(3) by (auto intro: target_shaped_value)
  have eq: "map (dict_value ?h') ?vs = ?vs"
    using assms(3) dict_value_value [of "model_fields lib" h]
    by (auto simp: map_idI)
  have same: "?h'(p := AList.update ''messages'' (PList ?vs) (?h' p)) = ?h'"
    by simp
  have "create_messages lib self ?h' p =
          (?h'(p := AList.update ''messages'' (PList (map (dict_value ?h') ?vs)) (?h' p)),
           Inr ())"
    using 1 2 3 by (rule target_shaped_messages)
  then have "create_messages lib self ?h' p = (?h', Inr ())"
    by (simp only: eq same)
  with first show ?thesis by simp
qed


theorem target_shaped_turns_unchanged_witness:
  "getitem (example_bare_request 0) ''messages'' = Inr (PList [PRef 1]) \<and>
   target_shaped (model_fields example_library) example_bare_request (PRef 1) \<and>
   create_messages example_library example_client example_bare_request 0 =
     (example_bare_request
        (0 := [(''messages'',
                PList [PDict [(''role'', PStr ''user''), (''content'', PStr ''hi'')]])]),
      Inr ()) \<and>
   create_messages example_library example_client
     (fst (create_messages example_library example_client example_bare_request 0)) 0 =
   create_messages example_library example_client example_bare_request 0"
proof -
  have 1: "getitem (example_bare_request 0) ''messages'' = Inr (PList [PRef 1])"
    by (simp add: example_bare_request_def getitem_def)
  have 2: "[PRef 1] \<noteq> []" by simp
  have 3: "target_shaped (model_fields example_library) example_bare_request (PRef 1)"
    by (simp add: target_shaped_def as_dict_def has_key_def example_bare_request_def
          example_library_def)
  then have 4: "\<forall>t \<in> set [PRef 1].
                  target_shaped (model_fields example_library) example_bare_request t"
    by simp
  have 5: "example_bare_request
             (0 := AList.update ''messages''
                     (PList (map (dict_value example_bare_request) [PRef 1]))
                     (example_bare_request 0)) =
           example_bare_request
             (0 := [(''messages'',
                     PList [PDict [(''role'', PStr ''user''), (''content'', PStr ''hi'')]])])"
    by (simp add: dict_value_def as_dict_def example_bare_request_def)
  note r = target_shaped_turns_unchanged [OF 1 2 4, of example_client, unfolded 5]
  from 1 3 r show ?thesis by blast
qed

subsection \<open>The status of a new client, and the cost of an unlisted model\<close>

text \<open>
  The status has no \<^verbatim>\<open>tool_use\<close> until a tool-use block is retrieved: neither the
  retrieval of a response without such a block nor \<^verbatim>\<open>create\<close> puts one there.
\<close>

lemma retrieval_loop_keeps_unprimed:
  "\<not> has_key ''tool_use'' (h (last_tooluse_status self)) \<Longrightarrow>
   \<forall>b \<in> set bs. \<not> is_tool_use b \<Longrightarrow>
   \<not> has_key ''tool_use''
       (fst (retrieval_loop lib self h res bs) (last_tooluse_status self))"
proof (induction bs arbitrary: h res)
  case Nil
  then show ?case by simp
next
  case (Cons b bs)
  have nt: "getattr b ''type'' \<noteq> Inr (PStr ''tool_use'')"
    using Cons.prems(2) by (simp add: is_tool_use_def)
  show ?case
  proof (cases "getattr b ''type''")
    case (Inl e)
    then show ?thesis using Cons.prems(1) by simp
  next
    case ty: (Inr ty)
    show ?thesis
    proof (cases "getattr b ''text''")
      case (Inl e)
      then show ?thesis using Cons.prems(1) ty nt by simp
    next
      case (Inr t)
      let ?h = "h(last_tooluse_status self :=
                    AList.update ''think'' t (h (last_tooluse_status self)))"
      have "\<not> has_key ''tool_use'' (?h (last_tooluse_status self))"
        using Cons.prems(1) by (simp add: has_key_def update_conv')
      moreover have "\<forall>b \<in> set bs. \<not> is_tool_use b" using Cons.prems(2) by simp
      ultimately have
        "\<not> has_key ''tool_use''
            (fst (retrieval_loop lib self ?h (res @ [Plain t]) bs) (last_tooluse_status self))"
        by (rule Cons.IH)
      moreover have "retrieval_loop lib self h res (b # bs) =
                     retrieval_loop lib self ?h (res @ [Plain t]) bs"
        using ty nt Inr by simp
      ultimately show ?thesis by metis
    qed
  qed
qed

lemma create_keeps_unprimed:
  assumes "\<not> has_key ''tool_use'' (h c)"
  shows "\<not> has_key ''tool_use'' (fst (create lib self h p) c)"
proof -
  have w: "writes_only p h (fst (create lib self h p))"
    by (rule create_frame [of lib self h p _ "snd (create lib self h p)"]) simp
  show ?thesis
  proof (cases "c = p")
    case True
    then show ?thesis
      using assms has_key_frame [OF w, of "''tool_use''"] by (simp add: request_keys_def)
  next
    case False
    then show ?thesis using assms w by (simp add: writes_only_def)
  qed
qed

text \<open>
  For a model that the price table does not list, \<^verbatim>\<open>cost\<close> returns the integer 0 and
  does not raise, whatever the response and the arithmetic are.
\<close>

lemma cost_unlisted_model:
  "map_of ANTHROPIC_PRICE1MM (model self) = None \<Longrightarrow>
   cost ar ANTHROPIC_PRICE1MM self response = Inr (PyInt 0)"
  by (simp add: cost_def)

text \<open>
  For a listed model that prices both kinds of tokens, the total is built from the float
  \<^verbatim>\<open>0.0\<close>: the input term is added to it, then the output term.
\<close>

lemma cost_listed_model:
  assumes "map_of ANTHROPIC_PRICE1MM (model self) = Some prices"
    and "map_of prices ''input'' = Some price_in"
    and "map_of prices ''output'' = Some price_out"
    and "usage response = Some u"
    and "times ar (input_tokens u) price_in = Inr a"
    and "divide_million ar a = Inr x"
    and "times ar (output_tokens u) price_out = Inr b"
    and "divide_million ar b = Inr y"
  shows "cost ar ANTHROPIC_PRICE1MM self response =
           Inr (PyFloat (plus_float ar (plus_float ar (float_zero ar) x) y))"
  using assms by (simp add: cost_def)

end
